theory Spec2Isabelle
  imports Complex_Main
begin

section \<open>The wizard page of the hiring framework (webapp/src/app/page.tsx)\<close>

text \<open>
  The component \<open>Home\<close> keeps the whole client-side session in React state hooks and
  moves through five steps (1 JD, 2 Resume, 3 GitHub, 4 Results, 5 Verdict). Every
  handler that talks to the backend is an \<open>async\<close> function: it runs up to its first
  \<open>await\<close>, the page is rendered again and stays responsive, and the rest of the
  handler runs when the reply arrives. The model therefore has one event for each control
  of the page and one event for each reply, a guard \<open>enabled\<close> read off the render
  conditions and the \<open>disabled\<close> attributes, and the effect \<open>fire\<close> of each event on the
  state. The requests that are under way are kept beside the hook values in \<open>inflight\<close>.

  The hook \<open>darkMode\<close> and its two effects only select CSS classes and are left out,
  as are the browser dialogs raised by \<open>alert\<close>.
\<close>

subsection \<open>Payloads of the backend\<close>

text \<open>
  \<open>res.data.data\<close> of the two resume endpoints. The page reads the keys \<open>score\<close>,
  \<open>max_score\<close>, \<open>passed\<close>, \<open>threshold\<close>, \<open>github_url\<close> and \<open>evaluation\<close>.
\<close>

record resume_evaluation =
  ev_score :: real
  ev_max_score :: real
  ev_passed :: bool
  ev_threshold :: real
  ev_github_url :: "string option"
  ev_evaluation :: string

text \<open>\<open>res.data.data\<close> of \<open>/api/v1/github/analyze\<close>.\<close>

record github_analysis =
  ga_github_url :: string
  ga_score :: real
  ga_max_score :: real
  ga_passed :: bool
  ga_threshold :: real
  ga_analysis :: string

text \<open>\<open>res.data.data\<close> of \<open>/api/v1/verdict/generate\<close>.\<close>

record final_verdict =
  fv_decision :: string
  fv_confidence :: string
  fv_composite_score :: real
  fv_level_1_score :: real
  fv_level_2_score :: real
  fv_level_3_score :: "real option"
  fv_verdict_text :: string

record threshold_config =
  level_1 :: real
  level_2 :: real
  level_3 :: real

text \<open>
  An axios call either throws (the \<open>catch\<close> branch; \<open>err.response?.data?.detail\<close> may be
  missing) or returns the body of a 2xx reply, which is taken to carry the object its
  endpoint documents under \<open>data\<close>.
\<close>

datatype 'a response = Failed "string option" | Ok 'a

text \<open>\<open>err.response?.data?.detail || fallback\<close>: an absent or empty detail is falsy.\<close>

definition detail_or :: "string option \<Rightarrow> string \<Rightarrow> string" where
  "detail_or detail fallback =
     (case detail of None \<Rightarrow> fallback | Some d \<Rightarrow> if d = [] then fallback else d)"

subsection \<open>Requests under way\<close>

text \<open>
  \<open>uploadJD\<close> and \<open>uploadJDFile\<close>, and \<open>evaluateResume\<close> and \<open>evaluateResumeFile\<close>,
  differ in the endpoint and in the fallback message only.
\<close>

datatype source = Text | File

datatype request =
    JdUpload source
  | RubricGenerate source
  | ResumeEvaluate source
  | GithubAnalyze
  | VerdictGenerate
  | ExportPdf
  | ThresholdsGet
  | ThresholdsPost


subsection \<open>State of the component\<close>

record home =
  step :: nat
  jdText :: string
  rubric :: string
  resumeText :: string
  evaluation :: "resume_evaluation option"
  githubUrl :: string
  githubAnalysis :: "github_analysis option"
  finalVerdict :: "final_verdict option"
  loading :: bool
  error :: string
  showSettings :: bool
  thresholds :: threshold_config
  inflight :: "request list"

text \<open>The initial values of the \<open>useState\<close> hooks (lines 12 to 23); nothing is under way.\<close>

definition Home_initial :: home where
  "Home_initial =
     \<lparr> step = 1, jdText = [], rubric = [], resumeText = [], evaluation = None,
       githubUrl = [], githubAnalysis = None, finalVerdict = None, loading = False,
       error = [], showSettings = False,
       thresholds = \<lparr> level_1 = 7, level_2 = 6, level_3 = 8 \<rparr>,
       inflight = [] \<rparr>"

subsection \<open>The handlers, cut at their awaits\<close>

text \<open>
  Every stage handler opens with \<open>setLoading(true); setError('')\<close> and then awaits its
  first axios call.
\<close>

definition send :: "request \<Rightarrow> home \<Rightarrow> home" where
  "send r s = s\<lparr> loading := True, error := [], inflight := r # inflight s \<rparr>"

text \<open>
  The \<open>catch\<close> branch followed by the closing \<open>setLoading(false)\<close>: only the message and
  the flag are written.
\<close>

definition caught :: "request \<Rightarrow> string option \<Rightarrow> string \<Rightarrow> home \<Rightarrow> home" where
  "caught r detail fallback s =
     s\<lparr> error := detail_or detail fallback, loading := False,
        inflight := remove1 r (inflight s) \<rparr>"

text \<open>\<open>uploadJD\<close> (lines 67 to 83) and \<open>uploadJDFile\<close> (lines 85 to 104).\<close>

fun jd_fallback :: "source \<Rightarrow> string" where
  "jd_fallback Text = ''Failed to process JD''"
| "jd_fallback File = ''Failed to process JD file''"

definition uploadJD_begin :: "source \<Rightarrow> home \<Rightarrow> home" where
  "uploadJD_begin k s = send (JdUpload k) s"

text \<open>After the first await: on success the rubric request follows at once.\<close>

definition uploadJD_uploaded :: "source \<Rightarrow> unit response \<Rightarrow> home \<Rightarrow> home" where
  "uploadJD_uploaded k res s =
     (case res of
        Failed detail \<Rightarrow> caught (JdUpload k) detail (jd_fallback k) s
      | Ok u \<Rightarrow> s\<lparr> inflight := RubricGenerate k # remove1 (JdUpload k) (inflight s) \<rparr>)"

text \<open>After the second await: \<open>setRubric\<close>, \<open>setStep(2)\<close>, \<open>setLoading(false)\<close>.\<close>

definition uploadJD_rubric :: "source \<Rightarrow> string response \<Rightarrow> home \<Rightarrow> home" where
  "uploadJD_rubric k rubricRes s =
     (case rubricRes of
        Failed detail \<Rightarrow> caught (RubricGenerate k) detail (jd_fallback k) s
      | Ok r \<Rightarrow> s\<lparr> rubric := r, step := 2, loading := False,
                   inflight := remove1 (RubricGenerate k) (inflight s) \<rparr>)"

text \<open>\<open>evaluateResume\<close> (lines 113 to 133) and \<open>evaluateResumeFile\<close> (lines 135 to 158).\<close>

fun resume_fallback :: "source \<Rightarrow> string" where
  "resume_fallback Text = ''Failed to evaluate resume''"
| "resume_fallback File = ''Failed to evaluate resume file''"

definition evaluateResume_begin :: "source \<Rightarrow> home \<Rightarrow> home" where
  "evaluateResume_begin k s = send (ResumeEvaluate k) s"

text \<open>
  \<open>setEvaluation\<close>, the auto-fill of the GitHub field when \<open>github_url\<close> is truthy, and
  \<open>setStep(3)\<close>, which does not look at \<open>passed\<close>.
\<close>

definition evaluateResume_done :: "source \<Rightarrow> resume_evaluation response \<Rightarrow> home \<Rightarrow> home" where
  "evaluateResume_done k res s =
     (case res of
        Failed detail \<Rightarrow> caught (ResumeEvaluate k) detail (resume_fallback k) s
      | Ok e \<Rightarrow>
          s\<lparr> evaluation := Some e,
             githubUrl := (case ev_github_url e of
                             None \<Rightarrow> githubUrl s
                           | Some u \<Rightarrow> if u = [] then githubUrl s else u),
             step := 3, loading := False,
             inflight := remove1 (ResumeEvaluate k) (inflight s) \<rparr>)"

text \<open>\<open>analyzeGitHub\<close> (lines 167 to 180).\<close>

definition analyzeGitHub_begin :: "home \<Rightarrow> home" where
  "analyzeGitHub_begin s = send GithubAnalyze s"

definition analyzeGitHub_done :: "github_analysis response \<Rightarrow> home \<Rightarrow> home" where
  "analyzeGitHub_done res s =
     (case res of
        Failed detail \<Rightarrow> caught GithubAnalyze detail ''Failed to analyze GitHub'' s
      | Ok a \<Rightarrow> s\<lparr> githubAnalysis := Some a, step := 4, loading := False,
                   inflight := remove1 GithubAnalyze (inflight s) \<rparr>)"

text \<open>\<open>generateFinalVerdict\<close> (lines 182 to 193).\<close>

definition generateFinalVerdict_begin :: "home \<Rightarrow> home" where
  "generateFinalVerdict_begin s = send VerdictGenerate s"

definition generateFinalVerdict_done :: "final_verdict response \<Rightarrow> home \<Rightarrow> home" where
  "generateFinalVerdict_done res s =
     (case res of
        Failed detail \<Rightarrow>
          caught VerdictGenerate detail ''Failed to generate final verdict'' s
      | Ok v \<Rightarrow> s\<lparr> finalVerdict := Some v, step := 5, loading := False,
                   inflight := remove1 VerdictGenerate (inflight s) \<rparr>)"

text \<open>
  \<open>downloadPDF\<close> (lines 195 to 212) does not touch \<open>loading\<close>; a reply is handed to the
  browser as a download, a failure only sets the message.
\<close>

definition downloadPDF_begin :: "home \<Rightarrow> home" where
  "downloadPDF_begin s = s\<lparr> inflight := ExportPdf # inflight s \<rparr>"

definition downloadPDF_done :: "unit response \<Rightarrow> home \<Rightarrow> home" where
  "downloadPDF_done res s =
     (case res of
        Failed detail \<Rightarrow>
          s\<lparr> error := detail_or detail ''Failed to download PDF'',
             inflight := remove1 ExportPdf (inflight s) \<rparr>
      | Ok u \<Rightarrow> s\<lparr> inflight := remove1 ExportPdf (inflight s) \<rparr>)"

text \<open>
  The settings button (lines 228 to 231) calls \<open>fetchThresholds\<close> (lines 46 to 53) and
  opens the dialog; a failed fetch is only logged.
\<close>

definition openSettings :: "home \<Rightarrow> home" where
  "openSettings s = s\<lparr> showSettings := True, inflight := ThresholdsGet # inflight s \<rparr>"

definition fetchThresholds_done :: "threshold_config response \<Rightarrow> home \<Rightarrow> home" where
  "fetchThresholds_done res s =
     (case res of
        Failed detail \<Rightarrow> s\<lparr> inflight := remove1 ThresholdsGet (inflight s) \<rparr>
      | Ok t \<Rightarrow> s\<lparr> thresholds := t, inflight := remove1 ThresholdsGet (inflight s) \<rparr>)"

text \<open>\<open>updateThresholds\<close> (lines 55 to 65): the dialog closes on success.\<close>

definition updateThresholds_begin :: "home \<Rightarrow> home" where
  "updateThresholds_begin s = s\<lparr> inflight := ThresholdsPost # inflight s \<rparr>"

definition updateThresholds_done :: "unit response \<Rightarrow> home \<Rightarrow> home" where
  "updateThresholds_done res s =
     (case res of
        Failed detail \<Rightarrow> s\<lparr> inflight := remove1 ThresholdsPost (inflight s) \<rparr>
      | Ok u \<Rightarrow> s\<lparr> showSettings := False,
                   inflight := remove1 ThresholdsPost (inflight s) \<rparr>)"

text \<open>
  The inline handler of both "Evaluate Another Candidate" buttons (lines 585 to 592 and
  686 to 693).
\<close>

definition evaluateAnother :: "home \<Rightarrow> home" where
  "evaluateAnother s =
     s\<lparr> step := 2, resumeText := [], githubUrl := [], evaluation := None,
        githubAnalysis := None, finalVerdict := None \<rparr>"

text \<open>The inline handler of both "Start Over" buttons (lines 598 to 607 and 699 to 708).\<close>

definition startOver :: "home \<Rightarrow> home" where
  "startOver s =
     s\<lparr> step := 1, jdText := [], rubric := [], resumeText := [], githubUrl := [],
        evaluation := None, githubAnalysis := None, finalVerdict := None \<rparr>"

subsection \<open>Events\<close>

text \<open>
  The controls of the page, in the order of the markup, and the replies of the backend.
  A file is uploaded by choosing it in the picker that the "Upload File" button opens
  (\<open>handleJDFileChange\<close>, \<open>handleResumeFileChange\<close>). The input itself is hidden and
  the picker of a browser is modal, so choosing a file is one event with the guard of
  its button; closing the picker without a file is no event.
\<close>

datatype event =
    OpenSettings
  | CloseSettings
  | SetLevel1 real
  | SetLevel2 real
  | SetLevel3 real
  | SaveChanges
  | TypeJd string
  | ProcessText
  | ChooseJdFile
  | TypeResume string
  | BackToJD
  | EvaluateText
  | ChooseResumeFile
  | TypeGithubUrl string
  | Back
  | SkipLevel2
  | AnalyzeGitHub
  | DownloadPdf
  | GenerateFinalVerdict
  | ViewFinalVerdict
  | EvaluateAnotherCandidate
  | StartOver
  | BackToResults
  | JdUploaded source "unit response"
  | RubricGenerated source "string response"
  | ResumeEvaluated source "resume_evaluation response"
  | GithubAnalyzed "github_analysis response"
  | VerdictGenerated "final_verdict response"
  | PdfExported "unit response"
  | ThresholdsFetched "threshold_config response"
  | ThresholdsSaved "unit response"

text \<open>
  A control can be used when the block that holds it is rendered
  (\<open>step === 1\<close>, \<open>step === 2\<close>, \<open>step === 3 && evaluation\<close>, \<open>step === 4 && evaluation\<close>,
  \<open>step === 5 && finalVerdict\<close>, \<open>showSettings\<close>) and its \<open>disabled\<close> attribute is false.
  A reply can arrive when its request is under way.
\<close>

fun enabled :: "home \<Rightarrow> event \<Rightarrow> bool" where
  "enabled s OpenSettings = True"
| "enabled s CloseSettings = showSettings s"
| "enabled s (SetLevel1 v) = showSettings s"
| "enabled s (SetLevel2 v) = showSettings s"
| "enabled s (SetLevel3 v) = showSettings s"
| "enabled s SaveChanges = showSettings s"
| "enabled s (TypeJd t) = (step s = 1)"
| "enabled s ProcessText = (step s = 1 \<and> jdText s \<noteq> [] \<and> \<not> loading s)"
| "enabled s ChooseJdFile = (step s = 1 \<and> \<not> loading s)"
| "enabled s (TypeResume t) = (step s = 2)"
| "enabled s BackToJD = (step s = 2)"
| "enabled s EvaluateText = (step s = 2 \<and> resumeText s \<noteq> [] \<and> \<not> loading s)"
| "enabled s ChooseResumeFile = (step s = 2 \<and> \<not> loading s)"
| "enabled s (TypeGithubUrl t) = (step s = 3 \<and> evaluation s \<noteq> None)"
| "enabled s Back = (step s = 3 \<and> evaluation s \<noteq> None)"
| "enabled s SkipLevel2 = (step s = 3 \<and> evaluation s \<noteq> None)"
| "enabled s AnalyzeGitHub =
     (step s = 3 \<and> evaluation s \<noteq> None \<and> githubUrl s \<noteq> [] \<and> \<not> loading s)"
| "enabled s DownloadPdf =
     (step s = 4 \<and> evaluation s \<noteq> None \<or> step s = 5 \<and> finalVerdict s \<noteq> None)"
| "enabled s GenerateFinalVerdict =
     (step s = 4 \<and> evaluation s \<noteq> None \<and> githubAnalysis s \<noteq> None
      \<and> finalVerdict s = None \<and> \<not> loading s)"
| "enabled s ViewFinalVerdict =
     (step s = 4 \<and> evaluation s \<noteq> None \<and> finalVerdict s \<noteq> None)"
| "enabled s EvaluateAnotherCandidate =
     (step s = 4 \<and> evaluation s \<noteq> None \<or> step s = 5 \<and> finalVerdict s \<noteq> None)"
| "enabled s StartOver =
     (step s = 4 \<and> evaluation s \<noteq> None \<or> step s = 5 \<and> finalVerdict s \<noteq> None)"
| "enabled s BackToResults = (step s = 5 \<and> finalVerdict s \<noteq> None)"
| "enabled s (JdUploaded k res) = (JdUpload k \<in> set (inflight s))"
| "enabled s (RubricGenerated k res) = (RubricGenerate k \<in> set (inflight s))"
| "enabled s (ResumeEvaluated k res) = (ResumeEvaluate k \<in> set (inflight s))"
| "enabled s (GithubAnalyzed res) = (GithubAnalyze \<in> set (inflight s))"
| "enabled s (VerdictGenerated res) = (VerdictGenerate \<in> set (inflight s))"
| "enabled s (PdfExported res) = (ExportPdf \<in> set (inflight s))"
| "enabled s (ThresholdsFetched res) = (ThresholdsGet \<in> set (inflight s))"
| "enabled s (ThresholdsSaved res) = (ThresholdsPost \<in> set (inflight s))"

fun fire :: "event \<Rightarrow> home \<Rightarrow> home" where
  "fire OpenSettings s = openSettings s"
| "fire CloseSettings s = s\<lparr> showSettings := False \<rparr>"
| "fire (SetLevel1 v) s = s\<lparr> thresholds := (thresholds s)\<lparr> level_1 := v \<rparr> \<rparr>"
| "fire (SetLevel2 v) s = s\<lparr> thresholds := (thresholds s)\<lparr> level_2 := v \<rparr> \<rparr>"
| "fire (SetLevel3 v) s = s\<lparr> thresholds := (thresholds s)\<lparr> level_3 := v \<rparr> \<rparr>"
| "fire SaveChanges s = updateThresholds_begin s"
| "fire (TypeJd t) s = s\<lparr> jdText := t \<rparr>"
| "fire ProcessText s = uploadJD_begin Text s"
| "fire ChooseJdFile s = uploadJD_begin File s"
| "fire (TypeResume t) s = s\<lparr> resumeText := t \<rparr>"
| "fire BackToJD s = s\<lparr> step := 1 \<rparr>"
| "fire EvaluateText s = evaluateResume_begin Text s"
| "fire ChooseResumeFile s = evaluateResume_begin File s"
| "fire (TypeGithubUrl t) s = s\<lparr> githubUrl := t \<rparr>"
| "fire Back s = s\<lparr> step := 2 \<rparr>"
| "fire SkipLevel2 s = s\<lparr> step := 4 \<rparr>"
| "fire AnalyzeGitHub s = analyzeGitHub_begin s"
| "fire DownloadPdf s = downloadPDF_begin s"
| "fire GenerateFinalVerdict s = generateFinalVerdict_begin s"
| "fire ViewFinalVerdict s = s\<lparr> step := 5 \<rparr>"
| "fire EvaluateAnotherCandidate s = evaluateAnother s"
| "fire StartOver s = startOver s"
| "fire BackToResults s = s\<lparr> step := 4 \<rparr>"
| "fire (JdUploaded k res) s = uploadJD_uploaded k res s"
| "fire (RubricGenerated k res) s = uploadJD_rubric k res s"
| "fire (ResumeEvaluated k res) s = evaluateResume_done k res s"
| "fire (GithubAnalyzed res) s = analyzeGitHub_done res s"
| "fire (VerdictGenerated res) s = generateFinalVerdict_done res s"
| "fire (PdfExported res) s = downloadPDF_done res s"
| "fire (ThresholdsFetched res) s = fetchThresholds_done res s"
| "fire (ThresholdsSaved res) s = updateThresholds_done res s"

text \<open>A run of the page: every event is enabled in the state it meets.\<close>

fun feasible :: "home \<Rightarrow> event list \<Rightarrow> bool" where
  "feasible s [] = True"
| "feasible s (e # es) = (enabled s e \<and> feasible (fire e s) es)"

fun exec :: "home \<Rightarrow> event list \<Rightarrow> home" where
  "exec s [] = s"
| "exec s (e # es) = exec (fire e s) es"

subsection \<open>Classes of events and of runs\<close>




text \<open>The buttons that only call \<open>setStep\<close> or reset hooks; none of them is disabled by \<open>loading\<close>.\<close>

fun navigation :: "event \<Rightarrow> bool" where
  "navigation BackToJD = True"
| "navigation Back = True"
| "navigation SkipLevel2 = True"
| "navigation ViewFinalVerdict = True"
| "navigation EvaluateAnotherCandidate = True"
| "navigation StartOver = True"
| "navigation BackToResults = True"
| "navigation e = False"


text \<open>A run in which the user leaves the navigation buttons alone while the spinner shows.\<close>

fun settled :: "home \<Rightarrow> event list \<Rightarrow> bool" where
  "settled s [] = True"
| "settled s (e # es) = ((navigation e \<longrightarrow> \<not> loading s) \<and> settled (fire e s) es)"

text \<open>The backend hands out a rubric with some text in it.\<close>

fun rubric_given :: "event \<Rightarrow> bool" where
  "rubric_given (RubricGenerated k (Ok r)) = (r \<noteq> [])"
| "rubric_given e = True"



subsection \<open>A sample session\<close>

definition sample_evaluation :: resume_evaluation where
  "sample_evaluation =
     \<lparr> ev_score = 5, ev_max_score = 10, ev_passed = False, ev_threshold = 7,
       ev_github_url = None, ev_evaluation = ''Lacks Postgres experience'' \<rparr>"

definition sample_analysis :: github_analysis where
  "sample_analysis =
     \<lparr> ga_github_url = ''octocat'', ga_score = 8, ga_max_score = 10, ga_passed = True,
       ga_threshold = 6, ga_analysis = ''Active Go repositories'' \<rparr>"

definition sample_verdict :: final_verdict where
  "sample_verdict =
     \<lparr> fv_decision = ''NO_HIRE'', fv_confidence = ''MEDIUM'', fv_composite_score = 13 / 2,
       fv_level_1_score = 5, fv_level_2_score = 8, fv_level_3_score = None,
       fv_verdict_text = ''Resume below threshold'' \<rparr>"

text \<open>Paste a JD and process it: the page arrives on step 2 with the rubric.\<close>

definition until_rubric :: "event list" where
  "until_rubric =
     [TypeJd ''Senior Backend Engineer, 5+ years, Go, Postgres'', ProcessText,
      JdUploaded Text (Ok ()), RubricGenerated Text (Ok ''Go; Postgres; seniority'')]"

text \<open>Then paste a resume and evaluate it: step 3, with a resume that did not pass.\<close>

definition until_resume :: "event list" where
  "until_resume =
     until_rubric @
     [TypeResume ''Jane Doe, 3 years of Go'', EvaluateText,
      ResumeEvaluated Text (Ok sample_evaluation)]"

text \<open>Then analyse a GitHub profile: step 4 with both levels.\<close>

definition until_results :: "event list" where
  "until_results =
     until_resume @ [TypeGithubUrl ''octocat'', AnalyzeGitHub, GithubAnalyzed (Ok sample_analysis)]"

text \<open>
  Ask for the verdict, press "Start Over" while it is generated, let the reply arrive on
  the emptied page, and go on with "Evaluate Another Candidate" and a new resume.
\<close>

definition reset_during_verdict :: "event list" where
  "reset_during_verdict =
     until_results @
     [GenerateFinalVerdict, StartOver, VerdictGenerated (Ok sample_verdict),
      EvaluateAnotherCandidate, TypeResume ''John Roe, 6 years of Go'', EvaluateText,
      ResumeEvaluated Text (Ok sample_evaluation)]"

subsection \<open>Invariants of runs\<close>



section \<open>Properties\<close>

lemmas handler_defs =
  send_def caught_def uploadJD_begin_def uploadJD_uploaded_def uploadJD_rubric_def
  evaluateResume_begin_def evaluateResume_done_def analyzeGitHub_begin_def
  analyzeGitHub_done_def generateFinalVerdict_begin_def generateFinalVerdict_done_def
  downloadPDF_begin_def downloadPDF_done_def openSettings_def fetchThresholds_done_def
  updateThresholds_begin_def updateThresholds_done_def evaluateAnother_def startOver_def

lemmas sample_defs =
  Home_initial_def until_rubric_def until_resume_def until_results_def
  reset_during_verdict_def sample_evaluation_def sample_analysis_def sample_verdict_def

subsection \<open>Thresholds\<close>

text \<open>
  C7. The threshold hook starts at \<open>level_1 = 7.0\<close>, \<open>level_2 = 6.0\<close>, \<open>level_3 = 8.0\<close>,
  each of them between 0 and 10; this is the configuration the page holds before the
  settings dialog has fetched or changed anything.
\<close>

theorem initial_thresholds:
  "thresholds Home_initial = \<lparr> level_1 = 7, level_2 = 6, level_3 = 8 \<rparr>
   \<and> 0 \<le> level_1 (thresholds Home_initial) \<and> level_1 (thresholds Home_initial) \<le> 10
   \<and> 0 \<le> level_2 (thresholds Home_initial) \<and> level_2 (thresholds Home_initial) \<le> 10
   \<and> 0 \<le> level_3 (thresholds Home_initial) \<and> level_3 (thresholds Home_initial) \<le> 10"
  by (simp add: Home_initial_def)

subsection \<open>The two reset buttons\<close>

text \<open>
  C8. After "Start Over" the JD text, the rubric, the resume text, the resume evaluation,
  the GitHub analysis, the GitHub identifier and the verdict are all empty or null, and
  the cursor is back on step 1, the step of the initial state.
\<close>

theorem start_over_clears_session:
  "jdText (fire StartOver s) = [] \<and> rubric (fire StartOver s) = []
   \<and> resumeText (fire StartOver s) = [] \<and> evaluation (fire StartOver s) = None
   \<and> githubAnalysis (fire StartOver s) = None \<and> githubUrl (fire StartOver s) = []
   \<and> finalVerdict (fire StartOver s) = None
   \<and> step (fire StartOver s) = 1 \<and> step (fire StartOver s) = step Home_initial"
  by (simp add: startOver_def Home_initial_def)

text \<open>
  C10. "Evaluate Another Candidate" keeps the JD text and the rubric, empties the resume
  text and the GitHub identifier, nulls the resume evaluation, the GitHub analysis and
  the verdict, puts the cursor on step 2, and writes no other hook.
\<close>

theorem evaluate_another_frame:
  "jdText (fire EvaluateAnotherCandidate s) = jdText s
   \<and> rubric (fire EvaluateAnotherCandidate s) = rubric s
   \<and> resumeText (fire EvaluateAnotherCandidate s) = []
   \<and> githubUrl (fire EvaluateAnotherCandidate s) = []
   \<and> evaluation (fire EvaluateAnotherCandidate s) = None
   \<and> githubAnalysis (fire EvaluateAnotherCandidate s) = None
   \<and> finalVerdict (fire EvaluateAnotherCandidate s) = None
   \<and> step (fire EvaluateAnotherCandidate s) = 2
   \<and> loading (fire EvaluateAnotherCandidate s) = loading s
   \<and> error (fire EvaluateAnotherCandidate s) = error s
   \<and> showSettings (fire EvaluateAnotherCandidate s) = showSettings s
   \<and> thresholds (fire EvaluateAnotherCandidate s) = thresholds s
   \<and> inflight (fire EvaluateAnotherCandidate s) = inflight s"
  by (simp add: evaluateAnother_def)

subsection \<open>Resume evaluation\<close>

text \<open>
  C4. A successful resume evaluation, from pasted text or from a file, stores the
  artifact and puts the cursor on step 3 whatever the artifact's \<open>passed\<close> flag says;
  there the GitHub field and the skip button are offered.
\<close>

theorem resume_evaluation_always_advances:
  "step (fire (ResumeEvaluated k (Ok e)) s) = 3
   \<and> evaluation (fire (ResumeEvaluated k (Ok e)) s) = Some e
   \<and> step (fire (ResumeEvaluated k (Ok (e\<lparr> ev_passed := False \<rparr>))) s) = 3
   \<and> step (fire (ResumeEvaluated k (Ok (e\<lparr> ev_passed := True \<rparr>))) s) = 3
   \<and> enabled (fire (ResumeEvaluated k (Ok e)) s) (TypeGithubUrl u)
   \<and> enabled (fire (ResumeEvaluated k (Ok e)) s) SkipLevel2"
  by (simp add: evaluateResume_done_def)

subsection \<open>Serialisation of the stage requests\<close>









subsection \<open>Failing operations\<close>




subsection \<open>GitHub analysis\<close>

text \<open>
  C5. When the reply to a GitHub analysis is a failure (the identifier does not validate
  or the analysis breaks) and the page is on step 3 with its resume evaluation, the
  page stays on step 3, the rubric, the resume evaluation, the GitHub analysis, the
  verdict and the GitHub field keep their values, the spinner stops, and both ways on
  are offered: the field can be corrected and "Analyze GitHub" pressed again, or
  "Skip Level 2" pressed, which leads to step 4.
\<close>

theorem failed_analysis_allows_retry_or_skip:
  assumes "step s = 3" "evaluation s \<noteq> None"
  shows "step (fire (GithubAnalyzed (Failed d)) s) = 3
    \<and> rubric (fire (GithubAnalyzed (Failed d)) s) = rubric s
    \<and> evaluation (fire (GithubAnalyzed (Failed d)) s) = evaluation s
    \<and> githubAnalysis (fire (GithubAnalyzed (Failed d)) s) = githubAnalysis s
    \<and> finalVerdict (fire (GithubAnalyzed (Failed d)) s) = finalVerdict s
    \<and> githubUrl (fire (GithubAnalyzed (Failed d)) s) = githubUrl s
    \<and> \<not> loading (fire (GithubAnalyzed (Failed d)) s)
    \<and> enabled (fire (GithubAnalyzed (Failed d)) s) (TypeGithubUrl u)
    \<and> (u \<noteq> [] \<longrightarrow>
         enabled (fire (TypeGithubUrl u) (fire (GithubAnalyzed (Failed d)) s)) AnalyzeGitHub)
    \<and> (githubUrl s \<noteq> [] \<longrightarrow> enabled (fire (GithubAnalyzed (Failed d)) s) AnalyzeGitHub)
    \<and> enabled (fire (GithubAnalyzed (Failed d)) s) SkipLevel2
    \<and> step (fire SkipLevel2 (fire (GithubAnalyzed (Failed d)) s)) = 4"
  using assms by (simp add: handler_defs)

theorem failed_analysis_allows_retry_or_skip_witness:
  "step (exec Home_initial (until_resume @ [TypeGithubUrl ''octocat-typo'', AnalyzeGitHub])) = 3
   \<and> evaluation (exec Home_initial (until_resume @ [TypeGithubUrl ''octocat-typo'', AnalyzeGitHub]))
       = Some sample_evaluation
   \<and> feasible Home_initial
       (until_resume @ [TypeGithubUrl ''octocat-typo'', AnalyzeGitHub,
          GithubAnalyzed (Failed (Some ''GitHub username does not exist'')),
          TypeGithubUrl ''octocat'', AnalyzeGitHub])
   \<and> step (fire (GithubAnalyzed (Failed (Some ''GitHub username does not exist'')))
        (exec Home_initial (until_resume @ [TypeGithubUrl ''octocat-typo'', AnalyzeGitHub]))) = 3
   \<and> enabled (fire (GithubAnalyzed (Failed (Some ''GitHub username does not exist'')))
        (exec Home_initial (until_resume @ [TypeGithubUrl ''octocat-typo'', AnalyzeGitHub])))
        SkipLevel2"
  using failed_analysis_allows_retry_or_skip
    [of "exec Home_initial (until_resume @ [TypeGithubUrl ''octocat-typo'', AnalyzeGitHub])"
        "Some ''GitHub username does not exist''" "''octocat''"]
  by (simp add: sample_defs handler_defs)

subsection \<open>Verdict generation\<close>

text \<open>
  C1, as the claim states it, fails: after a resume evaluation followed by
  "Skip Level 2" the page is on step 4 with the resume evaluation and no GitHub
  analysis, and "Generate Final Verdict" is not rendered.
\<close>

theorem verdict_not_offered_after_skip:
  "feasible Home_initial (until_resume @ [SkipLevel2])
   \<and> step (exec Home_initial (until_resume @ [SkipLevel2])) = 4
   \<and> evaluation (exec Home_initial (until_resume @ [SkipLevel2])) = Some sample_evaluation
   \<and> githubAnalysis (exec Home_initial (until_resume @ [SkipLevel2])) = None
   \<and> \<not> loading (exec Home_initial (until_resume @ [SkipLevel2]))
   \<and> \<not> enabled (exec Home_initial (until_resume @ [SkipLevel2])) GenerateFinalVerdict"
  by (simp add: sample_defs handler_defs)

text \<open>
  C1, amended. Verdict generation is offered exactly on step 4 when the resume
  evaluation and the GitHub analysis are both stored, no verdict is stored yet and no
  stage request is under way; used there, a successful reply stores the verdict and
  puts the cursor on step 5. It is not offered on the skip path.
\<close>

theorem verdict_offered_with_both_levels:
  "(enabled s GenerateFinalVerdict \<longleftrightarrow>
      step s = 4 \<and> evaluation s \<noteq> None \<and> githubAnalysis s \<noteq> None
      \<and> finalVerdict s = None \<and> \<not> loading s)
   \<and> (enabled s GenerateFinalVerdict \<longrightarrow>
        feasible s [GenerateFinalVerdict, VerdictGenerated (Ok v)])
   \<and> finalVerdict (exec s [GenerateFinalVerdict, VerdictGenerated (Ok v)]) = Some v
   \<and> step (exec s [GenerateFinalVerdict, VerdictGenerated (Ok v)]) = 5
   \<and> evaluation (exec s [GenerateFinalVerdict, VerdictGenerated (Ok v)]) = evaluation s
   \<and> githubAnalysis (exec s [GenerateFinalVerdict, VerdictGenerated (Ok v)])
       = githubAnalysis s"
  by (simp add: handler_defs)

theorem verdict_offered_with_both_levels_witness:
  "feasible Home_initial until_results
   \<and> enabled (exec Home_initial until_results) GenerateFinalVerdict
   \<and> feasible (exec Home_initial until_results)
        [GenerateFinalVerdict, VerdictGenerated (Ok sample_verdict)]
   \<and> finalVerdict (exec (exec Home_initial until_results)
        [GenerateFinalVerdict, VerdictGenerated (Ok sample_verdict)]) = Some sample_verdict
   \<and> step (exec (exec Home_initial until_results)
        [GenerateFinalVerdict, VerdictGenerated (Ok sample_verdict)]) = 5"
  using verdict_offered_with_both_levels [of "exec Home_initial until_results" sample_verdict]
  by (simp add: sample_defs handler_defs)

subsection \<open>Report export\<close>

text \<open>
  C6, as the claim states it, fails: right after the resume evaluation the page is on
  step 3 with the resume evaluation stored, and that step has no download button.
\<close>

theorem export_not_offered_on_step_3:
  "feasible Home_initial until_resume
   \<and> step (exec Home_initial until_resume) = 3
   \<and> evaluation (exec Home_initial until_resume) = Some sample_evaluation
   \<and> \<not> enabled (exec Home_initial until_resume) DownloadPdf"
  by (simp add: sample_defs handler_defs)

text \<open>
  C6, amended. The export is offered on step 4 when the resume evaluation is stored and
  on step 5 when the verdict is stored, and nowhere else. Pressing the button and
  receiving the reply, a document or a failure, change neither the cursor nor the
  rubric, the resume evaluation, the GitHub analysis or the verdict, nor the spinner.
\<close>

theorem export_offered_on_results_and_verdict:
  "(enabled s DownloadPdf \<longleftrightarrow>
      step s = 4 \<and> evaluation s \<noteq> None \<or> step s = 5 \<and> finalVerdict s \<noteq> None)
   \<and> step (fire DownloadPdf s) = step s \<and> rubric (fire DownloadPdf s) = rubric s
   \<and> evaluation (fire DownloadPdf s) = evaluation s
   \<and> githubAnalysis (fire DownloadPdf s) = githubAnalysis s
   \<and> finalVerdict (fire DownloadPdf s) = finalVerdict s
   \<and> loading (fire DownloadPdf s) = loading s
   \<and> step (fire (PdfExported res) s) = step s
   \<and> rubric (fire (PdfExported res) s) = rubric s
   \<and> evaluation (fire (PdfExported res) s) = evaluation s
   \<and> githubAnalysis (fire (PdfExported res) s) = githubAnalysis s
   \<and> finalVerdict (fire (PdfExported res) s) = finalVerdict s
   \<and> loading (fire (PdfExported res) s) = loading s"
  by (cases res) (simp_all add: handler_defs)

theorem export_offered_on_results_and_verdict_witness:
  "feasible Home_initial (until_results @ [DownloadPdf, PdfExported (Ok ())])
   \<and> enabled (exec Home_initial until_results) DownloadPdf
   \<and> step (fire DownloadPdf (exec Home_initial until_results)) = 4
   \<and> evaluation (fire (PdfExported (Ok ())) (fire DownloadPdf (exec Home_initial until_results)))
       = Some sample_evaluation"
  using export_offered_on_results_and_verdict [of "exec Home_initial until_results" "Ok ()"]
    export_offered_on_results_and_verdict
      [of "fire DownloadPdf (exec Home_initial until_results)" "Ok ()"]
  by (simp add: sample_defs handler_defs)

subsection \<open>Order of the steps\<close>











text \<open>
  Outside that discipline the rubric can be lost on the way to step 3: "Start Over"
  pressed while the verdict is being generated empties the page, the reply then stores
  the verdict and shows step 5, "Evaluate Another Candidate" leads to step 2 with the
  emptied rubric, and the next resume evaluation arrives on step 3.
\<close>

lemma start_over_while_generating:
  "feasible Home_initial reset_during_verdict
   \<and> \<not> settled Home_initial reset_during_verdict
   \<and> list_all rubric_given reset_during_verdict
   \<and> step (exec Home_initial reset_during_verdict) = 3
   \<and> rubric (exec Home_initial reset_during_verdict) = []"
  by (simp add: sample_defs handler_defs)

end
